theory Spec2Isabelle
  imports Main "HOL-Library.Multiset"
begin

section \<open>Python values, exceptions and strings\<close>

text \<open>
  The exceptions the code of Pentago.py can raise: a missing dictionary key, an index out
  of range, \<open>int\<close> of a non-digit, and the read of \<open>rotated_board\<close> when neither
  branch of \<open>SubBoard.rotate\<close> bound it.
\<close>

datatype py_error = KeyError | IndexError | ValueError | UnboundLocalError

text \<open>
  \<open>_game_state\<close> and the value \<open>make_move\<close> returns hold a string or a boolean:
  \<open>make_move\<close> returns \<open>True\<close> or a message, \<open>check_end_conditions\<close> returns
  \<open>True\<close> or \<open>False\<close>. A string never equals a boolean, in Python as here.
\<close>

datatype pyval = PyStr string | PyBool bool

datatype outcome = Returned pyval | Raised py_error

fun truthy :: "pyval \<Rightarrow> bool" where
  "truthy (PyBool b) = b"
| "truthy (PyStr s) = (s \<noteq> [])"

text \<open>
  Strings are lists of 8-bit characters (code points below 256). \<open>str.upper\<close> and
  \<open>str.lower\<close> are written out on the ASCII letters and leave every other character
  as it is: no character of that range outside ASCII is mapped to an ASCII letter by
  Python, so the two comparisons the code makes (with \<open>"WHITE"\<close>, and with the keys
  \<open>a\<close> to \<open>f\<close>) come out as in Python.
\<close>

definition upper_char :: "char \<Rightarrow> char" where
  "upper_char c =
     (case map_of (zip ''abcdefghijklmnopqrstuvwxyz'' ''ABCDEFGHIJKLMNOPQRSTUVWXYZ'') c of
        None \<Rightarrow> c
      | Some u \<Rightarrow> u)"

definition lower_char :: "char \<Rightarrow> char" where
  "lower_char c =
     (case map_of (zip ''ABCDEFGHIJKLMNOPQRSTUVWXYZ'' ''abcdefghijklmnopqrstuvwxyz'') c of
        None \<Rightarrow> c
      | Some l \<Rightarrow> l)"

definition upper :: "string \<Rightarrow> string" where
  "upper s = map upper_char s"

text \<open>
  \<open>int(ch)\<close> of a one-character string: the value of a decimal digit, or \<open>ValueError\<close>
  (a sign, a blank or an underscore alone is no number).
\<close>

definition py_int :: "char \<Rightarrow> py_error + nat" where
  "py_int d =
     (case map_of (zip ''0123456789'' [0, 1, 2, 3, 4, 5, 6, 7, 8, 9]) d of
        None \<Rightarrow> Inl ValueError
      | Some n \<Rightarrow> Inr n)"

text \<open>\<open>xs[i]\<close>: a negative index counts from the end, an index out of range raises.\<close>

definition py_index :: "'a list \<Rightarrow> int \<Rightarrow> py_error + 'a" where
  "py_index xs i =
     (let n = int (length xs) in
      if 0 \<le> i \<and> i < n then Inr (xs ! nat i)
      else if - n \<le> i \<and> i < 0 then Inr (xs ! nat (n + i))
      else Inl IndexError)"

section \<open>Pentago.convert_position\<close>

definition letter_conversion :: "char \<rightharpoonup> nat" where
  "letter_conversion =
     map_of [(CHR ''a'', 0), (CHR ''b'', 1), (CHR ''c'', 2), (CHR ''d'', 3), (CHR ''e'', 4),
             (CHR ''f'', 5)]"

text \<open>
  \<open>position[0]\<close> is read first (\<open>IndexError\<close> on the empty string), then looked up
  (\<open>KeyError\<close>), then \<open>position[1]\<close> is read (\<open>IndexError\<close>) and converted
  (\<open>ValueError\<close>). Characters after the second are never read.
\<close>

fun convert_position :: "string \<Rightarrow> py_error + (nat \<times> nat)" where
  "convert_position [] = Inl IndexError"
| "convert_position (c # rest) =
     (case letter_conversion (lower_char c) of
        None \<Rightarrow> Inl KeyError
      | Some row_index \<Rightarrow>
          (case rest of
             [] \<Rightarrow> Inl IndexError
           | d # _ \<Rightarrow>
               (case py_int d of
                  Inl e \<Rightarrow> Inl e
                | Inr column_index \<Rightarrow> Inr (row_index, column_index))))"

section \<open>GameBoard\<close>

text \<open>The board is a list of rows; a cell is \<open>"."\<close>, \<open>"W"\<close> or \<open>"B"\<close>.\<close>

type_synonym 'a grid = "'a list list"

definition new_game_board :: "string grid" where
  "new_game_board = replicate 6 (replicate 6 ''.'')"

definition board_at :: "'a grid \<Rightarrow> int \<Rightarrow> int \<Rightarrow> py_error + 'a" where
  "board_at b r c = (case py_index b r of Inl e \<Rightarrow> Inl e | Inr row \<Rightarrow> py_index row c)"

text \<open>\<open>self._game_board[row][col] = marble_color\<close>, with indices that are in range.\<close>

definition set_cell :: "'a grid \<Rightarrow> nat \<Rightarrow> nat \<Rightarrow> 'a \<Rightarrow> 'a grid" where
  "set_cell b r c v = b[r := (b ! r)[c := v]]"

fun update_game_board :: "'a grid \<Rightarrow> 'a \<Rightarrow> nat \<times> nat \<Rightarrow> 'a grid" where
  "update_game_board b marble_color (row, col) = set_cell b row col marble_color"

definition is_full :: "string grid \<Rightarrow> bool" where
  "is_full b = list_all (\<lambda>row. ''.'' \<notin> set row) b"

subsection \<open>check\_five\_in\_a\_row\<close>

text \<open>
  The condition of one \<open>if\<close>: the cells are read and compared in order, and \<open>and\<close>
  stops at the first that differs.
\<close>

fun all_color :: "'a grid \<Rightarrow> 'a \<Rightarrow> (int \<times> int) list \<Rightarrow> py_error + bool" where
  "all_color b color [] = Inr True"
| "all_color b color ((r, c) # cells) =
     (case board_at b r c of
        Inl e \<Rightarrow> Inl e
      | Inr v \<Rightarrow> if v = color then all_color b color cells else Inr False)"

text \<open>The five cells one \<open>if\<close> reads, from \<open>(row, column)\<close> in steps of \<open>(dr, dc)\<close>.\<close>

definition run_cells :: "int \<times> int \<Rightarrow> int \<times> int \<Rightarrow> (int \<times> int) list" where
  "run_cells d start =
     map (\<lambda>k. (fst start + k * fst d, snd start + k * snd d)) [0, 1, 2, 3, 4]"

text \<open>
  One loop nest: the start cells in the order the loops visit them; the first run that is
  all of the colour returns \<open>True\<close>.
\<close>

fun scan :: "'a grid \<Rightarrow> 'a \<Rightarrow> int \<times> int \<Rightarrow> (int \<times> int) list \<Rightarrow> py_error + bool" where
  "scan b color d [] = Inr False"
| "scan b color d (start # starts) =
     (case all_color b color (run_cells d start) of
        Inl e \<Rightarrow> Inl e
      | Inr found \<Rightarrow> if found then Inr True else scan b color d starts)"

definition row_starts :: "(int \<times> int) list" where
  "row_starts = concat (map (\<lambda>row. map (\<lambda>column. (row, column)) [0, 1]) [0, 1, 2, 3, 4, 5])"

definition column_starts :: "(int \<times> int) list" where
  "column_starts = concat (map (\<lambda>column. map (\<lambda>row. (row, column)) [0, 1]) [0, 1, 2, 3, 4, 5])"

definition diagonal_starts :: "(int \<times> int) list" where
  "diagonal_starts = concat (map (\<lambda>row. map (\<lambda>column. (row, column)) [0, 1]) [0, 1])"

text \<open>\<open>for row in range(2): for column in range(2, 6)\<close>.\<close>

definition anti_diagonal_starts :: "(int \<times> int) list" where
  "anti_diagonal_starts = concat (map (\<lambda>row. map (\<lambda>column. (row, column)) [2, 3, 4, 5]) [0, 1])"

definition check_five_in_a_row :: "'a grid \<Rightarrow> 'a \<Rightarrow> py_error + bool" where
  "check_five_in_a_row b color =
     (case scan b color (0, 1) row_starts of
        Inl e \<Rightarrow> Inl e
      | Inr found_row \<Rightarrow>
          if found_row then Inr True
          else
            (case scan b color (1, 0) column_starts of
               Inl e \<Rightarrow> Inl e
             | Inr found_column \<Rightarrow>
                 if found_column then Inr True
                 else
                   (case scan b color (1, 1) diagonal_starts of
                      Inl e \<Rightarrow> Inl e
                    | Inr found_diagonal \<Rightarrow>
                        if found_diagonal then Inr True
                        else scan b color (1, - 1) anti_diagonal_starts)))"

text \<open>\<open>check_end_conditions\<close> returns the boolean, whatever its docstring says.\<close>

definition check_end_conditions :: "string grid \<Rightarrow> string \<Rightarrow> py_error + pyval" where
  "check_end_conditions b current_player_color =
     (case check_five_in_a_row b current_player_color of
        Inl e \<Rightarrow> Inl e
      | Inr won \<Rightarrow> if won then Inr (PyBool True) else Inr (PyBool False))"

section \<open>SubBoard\<close>

text \<open>
  A \<open>SubBoard\<close> holds a reference to the main board and the corner of its window, so it
  is the pair of the board and that corner here. The four corners are 0 or 3 and the board
  is six by six (\<open>well_formed\<close> below), so every index of this section is in range.
\<close>

definition get_sub_board :: "'a grid \<Rightarrow> nat \<times> nat \<Rightarrow> 'a grid" where
  "get_sub_board main_board start =
     map (\<lambda>row. map (\<lambda>col. main_board ! (fst start + row) ! (snd start + col)) [0, 1, 2])
       [0, 1, 2]"

definition rotated_clockwise :: "'a grid \<Rightarrow> 'a grid" where
  "rotated_clockwise sub_board =
     [[sub_board ! 2 ! 0, sub_board ! 1 ! 0, sub_board ! 0 ! 0],
      [sub_board ! 2 ! 1, sub_board ! 1 ! 1, sub_board ! 0 ! 1],
      [sub_board ! 2 ! 2, sub_board ! 1 ! 2, sub_board ! 0 ! 2]]"

definition rotated_counterclockwise :: "'a grid \<Rightarrow> 'a grid" where
  "rotated_counterclockwise sub_board =
     [[sub_board ! 0 ! 2, sub_board ! 1 ! 2, sub_board ! 2 ! 2],
      [sub_board ! 0 ! 1, sub_board ! 1 ! 1, sub_board ! 2 ! 1],
      [sub_board ! 0 ! 0, sub_board ! 1 ! 0, sub_board ! 2 ! 0]]"

text \<open>The two loops that write a three by three grid into the window.\<close>

definition write_sub_board :: "'a grid \<Rightarrow> nat \<times> nat \<Rightarrow> 'a grid \<Rightarrow> 'a grid" where
  "write_sub_board main_board start cells =
     fold (\<lambda>row b.
         fold (\<lambda>col b'. set_cell b' (fst start + row) (snd start + col) (cells ! row ! col))
           [0, 1, 2] b)
       [0, 1, 2] main_board"

text \<open>
  With a rotation that is neither \<open>"C"\<close> nor \<open>"A"\<close>, \<open>rotated_board\<close> is unbound when
  the loops read it.
\<close>

definition SubBoard_rotate :: "'a grid \<Rightarrow> nat \<times> nat \<Rightarrow> string \<Rightarrow> py_error + 'a grid" where
  "SubBoard_rotate main_board start rotation =
     (let sub_board = get_sub_board main_board start in
      if rotation = ''C'' then
        Inr (write_sub_board main_board start (rotated_clockwise sub_board))
      else if rotation = ''A'' then
        Inr (write_sub_board main_board start (rotated_counterclockwise sub_board))
      else Inl UnboundLocalError)"

subsection \<open>GameBoard, continued\<close>

definition sub_board_map :: "(int \<times> (nat \<times> nat)) list" where
  "sub_board_map = [(1, (0, 0)), (2, (0, 3)), (3, (3, 0)), (4, (3, 3))]"

definition update_board_from_sub_boards :: "'a grid \<Rightarrow> 'a grid" where
  "update_board_from_sub_boards b =
     fold (\<lambda>entry b'. write_sub_board b' (snd entry) (get_sub_board b' (snd entry)))
       sub_board_map b"

definition rotate_sub_board :: "'a grid \<Rightarrow> int \<Rightarrow> string \<Rightarrow> py_error + 'a grid" where
  "rotate_sub_board b sub_board rotation =
     (case map_of sub_board_map sub_board of
        None \<Rightarrow> Inl KeyError
      | Some start \<Rightarrow>
          (case SubBoard_rotate b start rotation of
             Inl e \<Rightarrow> Inl e
           | Inr b' \<Rightarrow> Inr (update_board_from_sub_boards b')))"

definition well_formed :: "'a grid \<Rightarrow> bool" where
  "well_formed b = (length b = 6 \<and> list_all (\<lambda>row. length row = 6) b)"

section \<open>GameLog\<close>

text \<open>An entry of the log is the formatted string; here, the values it is formatted from.\<close>

datatype log_entry = MoveEntry string "nat \<times> nat" int string

definition log_move ::
  "log_entry list \<Rightarrow> string \<Rightarrow> nat \<times> nat \<Rightarrow> int \<Rightarrow> string \<Rightarrow> log_entry list" where
  "log_move entries marble_color position sub_board rotation =
     (let rotation_converted = (if rotation = ''C'' then ''Clockwise'' else ''A'')
      in entries @ [MoveEntry marble_color position sub_board rotation_converted])"

section \<open>Pentago\<close>

record pentago =
  board :: "string grid"
  current_player :: "string option"
  opponent :: "string option"
  game_state :: pyval
  game_log :: "log_entry list"

definition new_game :: pentago where
  "new_game =
     \<lparr>board = new_game_board, current_player = None, opponent = None,
      game_state = PyStr ''UNFINISHED'', game_log = []\<rparr>"

definition set_current_player :: "pentago \<Rightarrow> string \<Rightarrow> pentago" where
  "set_current_player s marble_color = s\<lparr>current_player := Some marble_color\<rparr>"

definition set_opponent :: "pentago \<Rightarrow> string \<Rightarrow> pentago" where
  "set_opponent s opp = s\<lparr>opponent := Some opp\<rparr>"

definition set_game_state :: "pentago \<Rightarrow> pyval \<Rightarrow> pentago" where
  "set_game_state s st = s\<lparr>game_state := st\<rparr>"

fun is_valid_move :: "pentago \<Rightarrow> nat \<times> nat \<Rightarrow> string \<Rightarrow> py_error + pyval" where
  "is_valid_move s (row, column) player =
     (if game_state s \<noteq> PyStr ''UNFINISHED'' then Inr (PyStr ''game is finished'')
      else if Some player = opponent s then Inr (PyStr ''not this player's turn'')
      else
        (case board_at (board s) (int row) (int column) of
           Inl e \<Rightarrow> Inl e
         | Inr v \<Rightarrow>
             if v \<noteq> ''.'' then Inr (PyStr ''position is not empty'') else Inr (PyBool True)))"

definition switch_player :: "pentago \<Rightarrow> pentago" where
  "switch_player s =
     (if current_player s = Some ''B'' then set_opponent (set_current_player s ''W'') ''B''
      else if current_player s = Some ''W'' then set_opponent (set_current_player s ''B'') ''W''
      else s)"

definition convert_color :: "string \<rightharpoonup> string" where
  "convert_color = map_of [(''W'', ''WHITE''), (''B'', ''BLACK'')]"

text \<open>
  \<open>make_move\<close> from the rotation on (the lines after the first \<open>return True\<close>): \<open>s\<close> is
  the state after the placement.
\<close>

definition make_move_rotation ::
  "pentago \<Rightarrow> string \<Rightarrow> nat \<times> nat \<Rightarrow> int \<Rightarrow> string \<Rightarrow> outcome \<times> pentago" where
  "make_move_rotation s marble_color position sub_board rotation =
     (case rotate_sub_board (board s) sub_board rotation of
        Inl e \<Rightarrow> (Raised e, s)
      | Inr rotated \<Rightarrow>
          (let s1 = s\<lparr>board := update_board_from_sub_boards rotated\<rparr> in
           case check_end_conditions (board s1) marble_color of
             Inl e \<Rightarrow> (Raised e, s1)
           | Inr current_player_win \<Rightarrow>
               (let opponent_color = (if marble_color = ''B'' then ''W'' else ''B'');
                    s2 = set_opponent s1 opponent_color
                in
                case check_end_conditions (board s2) opponent_color of
                  Inl e \<Rightarrow> (Raised e, s2)
                | Inr opponent_win \<Rightarrow>
                    (case (convert_color marble_color, convert_color opponent_color) of
                       (Some current_player_color, Some current_opponent_color) \<Rightarrow>
                         if truthy current_player_win then
                           (if truthy opponent_win then
                              (Returned (PyBool True), set_game_state s2 (PyStr ''DRAW''))
                            else
                              (Returned (PyBool True),
                               set_game_state s2 (PyStr (current_player_color @ ''_WON''))))
                         else if truthy opponent_win then
                           (Returned (PyBool True),
                            set_game_state s2 (PyStr (current_opponent_color @ ''_WON'')))
                         else if is_full (board s2) then
                           (Returned (PyBool True), set_game_state s2 (PyStr ''DRAW''))
                         else
                           (Returned (PyBool True),
                            switch_player
                              (s2\<lparr>game_log :=
                                   log_move (game_log s2) marble_color position sub_board
                                     rotation\<rparr>))
                     | _ \<Rightarrow> (Raised KeyError, s2)))))"

text \<open>
  \<open>make_move\<close>: the outcome (the value returned, or the exception raised) and the state
  the call leaves. \<open>_current_player\<close> is assigned before the move is validated.
\<close>

definition make_move ::
  "pentago \<Rightarrow> string \<Rightarrow> string \<Rightarrow> int \<Rightarrow> string \<Rightarrow> outcome \<times> pentago" where
  "make_move s color position_string sub_board rotation =
     (case convert_position position_string of
        Inl e \<Rightarrow> (Raised e, s)
      | Inr position \<Rightarrow>
          (let marble_color = (if upper color = ''WHITE'' then ''W'' else ''B'');
               s1 = s\<lparr>current_player := Some marble_color\<rparr>
           in
           case is_valid_move s1 position marble_color of
             Inl e \<Rightarrow> (Raised e, s1)
           | Inr validation_result \<Rightarrow>
               if validation_result \<noteq> PyBool True then (Returned validation_result, s1)
               else
                 (let s2 = s1\<lparr>board := update_game_board (board s1) marble_color position\<rparr> in
                  case check_end_conditions (board s2) marble_color of
                    Inl e \<Rightarrow> (Raised e, s2)
                  | Inr end_state \<Rightarrow>
                      if end_state \<noteq> PyStr ''UNFINISHED'' then
                        (Returned (PyBool True), set_game_state s2 end_state)
                      else make_move_rotation s2 marble_color position sub_board rotation)))"

section \<open>Games, and the definitions the properties are stated with\<close>

text \<open>
  A game is a \<open>Pentago()\<close> and the calls of \<open>make_move\<close> made on it, one after the
  other; a caller that catches an exception goes on with the state the call left.
\<close>

type_synonym call = "string \<times> string \<times> int \<times> string"

fun position_of :: "call \<Rightarrow> string" where
  "position_of (color, position_string, sub_board, rotation) = position_string"

fun play :: "pentago \<Rightarrow> call list \<Rightarrow> outcome list \<times> pentago" where
  "play s [] = ([], s)"
| "play s ((color, position_string, sub_board, rotation) # calls) =
     (case make_move s color position_string sub_board rotation of
        (out, s') \<Rightarrow> (case play s' calls of (outs, s'') \<Rightarrow> (out # outs, s'')))"

text \<open>
  What the specification asks of \<open>isFiveInARow\<close>, in its words: a run of five contiguous
  cells of the colour that lies within the six by six grid, in a row, a column or one of
  the two diagonal directions. It is compared with \<open>check_five_in_a_row\<close> below.
\<close>

definition five_in_a_row_within_grid :: "'a grid \<Rightarrow> 'a \<Rightarrow> bool" where
  "five_in_a_row_within_grid b color =
     list_ex (\<lambda>d.
         list_ex (\<lambda>start.
             list_all (\<lambda>cell.
                 0 \<le> fst cell \<and> fst cell < 6 \<and> 0 \<le> snd cell \<and> snd cell < 6 \<and>
                 b ! nat (fst cell) ! nat (snd cell) = color)
               (run_cells d start))
           (List.product [0, 1, 2, 3, 4, 5] [0, 1, 2, 3, 4, 5]))
       [(0, 1), (1, 0), (1, 1), (1, - 1)]"

text \<open>
  A board with five white marbles on no line: three on an anti-diagonal from the top row to
  the left edge, and two near the right edge.
\<close>

definition wrapped_board :: "string grid" where
  "wrapped_board =
     [[''.'', ''.'', ''W'', ''.'', ''.'', ''.''],
      [''.'', ''W'', ''.'', ''.'', ''.'', ''.''],
      [''W'', ''.'', ''.'', ''.'', ''.'', ''.''],
      [''.'', ''.'', ''.'', ''.'', ''.'', ''W''],
      [''.'', ''.'', ''.'', ''.'', ''W'', ''.''],
      [''.'', ''.'', ''.'', ''.'', ''.'', ''.'']]"

text \<open>
  A position with White to move in which a white marble on \<open>c0\<close> makes no line, and the
  clockwise turn of sub-board 1 then makes a white line in row \<open>a\<close> and a black one in
  row \<open>b\<close>.
\<close>

definition double_line_board :: "string grid" where
  "double_line_board =
     [[''W'', ''B'', ''.'', ''W'', ''W'', ''.''],
      [''W'', ''B'', ''.'', ''B'', ''B'', ''.''],
      [''.'', ''B'', ''.'', ''.'', ''.'', ''.''],
      [''.'', ''.'', ''.'', ''.'', ''.'', ''.''],
      [''.'', ''.'', ''.'', ''.'', ''.'', ''.''],
      [''.'', ''.'', ''.'', ''.'', ''.'', ''.'']]"

definition double_line_game :: pentago where
  "double_line_game =
     \<lparr>board = double_line_board, current_player = Some ''W'', opponent = Some ''B'',
      game_state = PyStr ''UNFINISHED'', game_log = []\<rparr>"

text \<open>The marble \<open>make_move\<close> turns its colour argument into.\<close>

definition marble_of :: "string \<Rightarrow> string" where
  "marble_of color = (if upper color = ''WHITE'' then ''W'' else ''B'')"

text \<open>
  What a call does once the game is over: the exception of \<open>convert_position\<close> if the
  position does not decode, the message \<open>game is finished\<close> if it does.
\<close>

definition refusal_of :: "call \<Rightarrow> outcome" where
  "refusal_of c =
     (case convert_position (position_of c) of
        Inl e \<Rightarrow> Raised e
      | Inr position \<Rightarrow> Returned (PyStr ''game is finished''))"

definition successes :: "outcome list \<Rightarrow> nat" where
  "successes outs = length (filter (\<lambda>out. out = Returned (PyBool True)) outs)"

text \<open>The indices \<open>board[r][c]\<close> accepts on a six by six board, negative ones included.\<close>

definition in_reach :: "int \<times> int \<Rightarrow> bool" where
  "in_reach cell = (- 6 \<le> fst cell \<and> fst cell < 6 \<and> - 6 \<le> snd cell \<and> snd cell < 6)"

text \<open>The contents of a sub-board: three rows of three cells.\<close>

definition three_by_three :: "'a grid \<Rightarrow> bool" where
  "three_by_three q = (length q = 3 \<and> list_all (\<lambda>row. length row = 3) q)"

text \<open>
  A board whose first sub-board holds nine different cells, to follow a rotation on.
\<close>

definition numbered_board :: "string grid" where
  "numbered_board =
     [[''1'', ''2'', ''3'', ''.'', ''.'', ''.''],
      [''4'', ''5'', ''6'', ''.'', ''.'', ''.''],
      [''7'', ''8'', ''9'', ''.'', ''.'', ''.''],
      [''.'', ''.'', ''.'', ''.'', ''.'', ''.''],
      [''.'', ''.'', ''.'', ''.'', ''.'', ''.''],
      [''.'', ''.'', ''.'', ''.'', ''.'', ''.'']]"

text \<open>A game that White has won, set up through the setters of \<open>Pentago\<close>.\<close>

definition white_won_game :: pentago where
  "white_won_game =
     set_game_state (set_opponent (set_current_player new_game ''W'') ''B'')
       (PyStr ''WHITE_WON'')"

text \<open>A game of three calls: a first move, a move on the same cell, a position off the board.\<close>

definition three_calls :: "call list" where
  "three_calls =
     [(''white'', ''a0'', 1, ''C''), (''black'', ''a0'', 1, ''C''), (''black'', ''z0'', 1, ''C'')]"

section \<open>The first move of a game\<close>

text \<open>
  C1. In a game that is unfinished, a move whose placement makes no five in a row should
  turn the named sub-board and, with no line and no full board after the turn, log the
  move, switch the players and leave the game \<open>UNFINISHED\<close>. The code does none of it:
  on a new game, \<open>make_move('white', 'a0', 1, 'C')\<close> makes no line, returns \<open>True\<close> and
  leaves the marble on \<open>a0\<close> (the turn would carry it to \<open>a2\<close>), the log empty, the
  opponent unset and the state \<open>False\<close>.
\<close>

theorem first_move_neither_rotates_nor_logs:
  "make_move new_game ''white'' ''a0'' 1 ''C'' =
     (Returned (PyBool True),
      \<lparr>board =
         [[''W'', ''.'', ''.'', ''.'', ''.'', ''.''],
          [''.'', ''.'', ''.'', ''.'', ''.'', ''.''],
          [''.'', ''.'', ''.'', ''.'', ''.'', ''.''],
          [''.'', ''.'', ''.'', ''.'', ''.'', ''.''],
          [''.'', ''.'', ''.'', ''.'', ''.'', ''.''],
          [''.'', ''.'', ''.'', ''.'', ''.'', ''.'']],
       current_player = Some ''W'', opponent = None,
       game_state = PyBool False, game_log = []\<rparr>)
   \<and> check_five_in_a_row (update_game_board new_game_board ''W'' (0, 0)) ''W'' = Inr False"
  by code_simp

text \<open>
  C7. After White's first move on \<open>a1\<close> (with a turn of sub-board 2, which would leave
  \<open>a1\<close> where it is), Black's move on \<open>a1\<close> should be refused because the cell is taken,
  and the game should stay \<open>UNFINISHED\<close>. The code refuses it with
  \<open>game is finished\<close>: the first move left the state \<open>False\<close>, and the check of the
  state comes before the check of the cell.
\<close>

theorem occupied_cell_reported_as_finished_game:
  "make_move new_game ''white'' ''a1'' 2 ''C'' =
     (Returned (PyBool True),
      \<lparr>board =
         [[''.'', ''W'', ''.'', ''.'', ''.'', ''.''],
          [''.'', ''.'', ''.'', ''.'', ''.'', ''.''],
          [''.'', ''.'', ''.'', ''.'', ''.'', ''.''],
          [''.'', ''.'', ''.'', ''.'', ''.'', ''.''],
          [''.'', ''.'', ''.'', ''.'', ''.'', ''.''],
          [''.'', ''.'', ''.'', ''.'', ''.'', ''.'']],
       current_player = Some ''W'', opponent = None,
       game_state = PyBool False, game_log = []\<rparr>)
   \<and> make_move (snd (make_move new_game ''white'' ''a1'' 2 ''C'')) ''black'' ''a1'' 2 ''C'' =
     (Returned (PyStr ''game is finished''),
      \<lparr>board =
         [[''.'', ''W'', ''.'', ''.'', ''.'', ''.''],
          [''.'', ''.'', ''.'', ''.'', ''.'', ''.''],
          [''.'', ''.'', ''.'', ''.'', ''.'', ''.''],
          [''.'', ''.'', ''.'', ''.'', ''.'', ''.''],
          [''.'', ''.'', ''.'', ''.'', ''.'', ''.''],
          [''.'', ''.'', ''.'', ''.'', ''.'', ''.'']],
       current_player = Some ''B'', opponent = None,
       game_state = PyBool False, game_log = []\<rparr>)"
  by code_simp

text \<open>
  C8. When the placement makes no line and the turn of the sub-board then makes one for
  each colour, the state should become \<open>DRAW\<close>. In \<open>double_line_game\<close>, White's marble
  on \<open>c0\<close> makes no line, the clockwise turn of sub-board 1 would make a white and a black
  one, and the code from the rotation on would store \<open>DRAW\<close>; \<open>make_move\<close> never gets
  there, and stores \<open>False\<close> on the board as it was placed.
\<close>

theorem double_line_stored_as_false:
  "make_move double_line_game ''white'' ''c0'' 1 ''C'' =
     (Returned (PyBool True),
      \<lparr>board =
         [[''W'', ''B'', ''.'', ''W'', ''W'', ''.''],
          [''W'', ''B'', ''.'', ''B'', ''B'', ''.''],
          [''W'', ''B'', ''.'', ''.'', ''.'', ''.''],
          [''.'', ''.'', ''.'', ''.'', ''.'', ''.''],
          [''.'', ''.'', ''.'', ''.'', ''.'', ''.''],
          [''.'', ''.'', ''.'', ''.'', ''.'', ''.'']],
       current_player = Some ''W'', opponent = Some ''B'',
       game_state = PyBool False, game_log = []\<rparr>)
   \<and> check_five_in_a_row (update_game_board double_line_board ''W'' (2, 0)) ''W'' = Inr False
   \<and> rotate_sub_board (update_game_board double_line_board ''W'' (2, 0)) 1 ''C'' =
       Inr [[''W'', ''W'', ''W'', ''W'', ''W'', ''.''],
            [''B'', ''B'', ''B'', ''B'', ''B'', ''.''],
            [''.'', ''.'', ''.'', ''.'', ''.'', ''.''],
            [''.'', ''.'', ''.'', ''.'', ''.'', ''.''],
            [''.'', ''.'', ''.'', ''.'', ''.'', ''.''],
            [''.'', ''.'', ''.'', ''.'', ''.'', ''.'']]
   \<and> game_state
         (snd (make_move_rotation
            (double_line_game\<lparr>board := update_game_board double_line_board ''W'' (2, 0)\<rparr>)
            ''W'' (2, 0) 1 ''C'')) = PyStr ''DRAW''"
  by code_simp

section \<open>Five in a row\<close>

text \<open>
  C3. \<open>check_five_in_a_row\<close> should return true exactly when five contiguous cells of the
  colour lie within the grid on a row, a column or a diagonal, with four start cells for
  each diagonal direction, and never report a run that crosses the edge. The last loop
  starts at the columns 2 to 5, eight start cells, and from the columns 2 and 3 the
  indices \<open>column - 3\<close> and \<open>column - 4\<close> are negative, which Python counts from the
  right edge. On \<open>wrapped_board\<close> the run from \<open>(0, 2)\<close> reads the cells \<open>(0, 2)\<close>,
  \<open>(1, 1)\<close>, \<open>(2, 0)\<close>, \<open>(3, 5)\<close> and \<open>(4, 4)\<close>: the code returns \<open>True\<close>, and no five
  white marbles are in a line.
\<close>

theorem anti_diagonal_scan_wraps_around:
  "check_five_in_a_row wrapped_board ''W'' = Inr True
   \<and> \<not> five_in_a_row_within_grid wrapped_board ''W''
   \<and> run_cells (1, - 1) (0, 2) = [(0, 2), (1, 1), (2, 0), (3, - 1), (4, - 2)]
   \<and> board_at wrapped_board 3 (- 1) = Inr ''W''
   \<and> board_at wrapped_board 4 (- 2) = Inr ''W''
   \<and> length anti_diagonal_starts = 8"
  by code_simp

section \<open>The end of the game\<close>

lemma check_end_conditions_boolean:
  "check_end_conditions b c = Inr v \<Longrightarrow> v = PyBool True \<or> v = PyBool False"
  by (auto simp: check_end_conditions_def split: sum.splits if_splits)

lemma check_end_conditions_not_unfinished:
  "check_end_conditions b c = Inr v \<Longrightarrow> v \<noteq> PyStr ''UNFINISHED''"
  by (drule check_end_conditions_boolean) auto

text \<open>
  The comparison of the result of \<open>check_end_conditions\<close> with \<open>"UNFINISHED"\<close> never
  fails, so \<open>make_move\<close> never reaches its rotation.
\<close>

lemma make_move_returns_before_rotation:
  "make_move s color position_string sub_board rotation =
     (case convert_position position_string of
        Inl e \<Rightarrow> (Raised e, s)
      | Inr position \<Rightarrow>
          (let s1 = s\<lparr>current_player := Some (marble_of color)\<rparr> in
           case is_valid_move s1 position (marble_of color) of
             Inl e \<Rightarrow> (Raised e, s1)
           | Inr validation_result \<Rightarrow>
               if validation_result \<noteq> PyBool True then (Returned validation_result, s1)
               else
                 (let s2 = s1\<lparr>board := update_game_board (board s) (marble_of color) position\<rparr>
                  in
                  case check_end_conditions (board s2) (marble_of color) of
                    Inl e \<Rightarrow> (Raised e, s2)
                  | Inr end_state \<Rightarrow> (Returned (PyBool True), s2\<lparr>game_state := end_state\<rparr>))))"
  by (auto simp: make_move_def marble_of_def set_game_state_def Let_def split: sum.splits
      dest: check_end_conditions_not_unfinished)

lemma make_move_when_finished:
  assumes "game_state s \<noteq> PyStr ''UNFINISHED''"
  shows "make_move s color position_string sub_board rotation =
     (case convert_position position_string of
        Inl e \<Rightarrow> (Raised e, s)
      | Inr position \<Rightarrow>
          (Returned (PyStr ''game is finished''), s\<lparr>current_player := Some (marble_of color)\<rparr>))"
proof (cases "convert_position position_string")
  case (Inl e)
  then show ?thesis by (simp add: make_move_def)
next
  case (Inr position)
  obtain row column where p: "position = (row, column)" by (cases position)
  show ?thesis using assms Inr p by (simp add: make_move_def marble_of_def Let_def)
qed

lemma make_move_success_stores_boolean:
  assumes "make_move s color position_string sub_board rotation = (Returned (PyBool True), s')"
  shows "game_state s' = PyBool True \<or> game_state s' = PyBool False"
  using assms
  by (auto simp: make_move_returns_before_rotation Let_def
      split: sum.splits if_splits dest: check_end_conditions_boolean)

text \<open>
  C2. Once the state is not \<open>UNFINISHED\<close>, every call of \<open>make_move\<close> should fail with
  the finished-game error and leave the whole state as it was. It does not: the position
  is decoded first, so a position that does not decode raises; and \<open>_current_player\<close> is
  assigned before the move is validated, so a refused call changes it. What holds: a call
  whose position decodes returns \<open>game is finished\<close> and leaves the board, the opponent,
  the state and the log as they were, with the mover's marble as current player; a call
  whose position does not decode raises and leaves the state as it was.
\<close>

theorem finished_game_refuses_moves:
  assumes "game_state s \<noteq> PyStr ''UNFINISHED''"
    and "make_move s color position_string sub_board rotation = (out, s')"
  shows "case convert_position position_string of
           Inl e \<Rightarrow> out = Raised e \<and> s' = s
         | Inr position \<Rightarrow>
             out = Returned (PyStr ''game is finished'') \<and> board s' = board s \<and>
             opponent s' = opponent s \<and> game_state s' = game_state s \<and>
             game_log s' = game_log s \<and> current_player s' = Some (marble_of color)"
  using assms(2) make_move_when_finished [OF assms(1), of color position_string sub_board rotation]
  by (auto split: sum.splits)

theorem finished_game_refuses_moves_witness:
  "game_state white_won_game \<noteq> PyStr ''UNFINISHED''
   \<and> make_move white_won_game ''black'' ''a0'' 1 ''C'' =
       (Returned (PyStr ''game is finished''), white_won_game\<lparr>current_player := Some ''B''\<rparr>)
   \<and> board (white_won_game\<lparr>current_player := Some ''B''\<rparr>) = board white_won_game
   \<and> game_state (white_won_game\<lparr>current_player := Some ''B''\<rparr>) = game_state white_won_game"
proof -
  have h: "game_state white_won_game \<noteq> PyStr ''UNFINISHED''" by code_simp
  have m: "make_move white_won_game ''black'' ''a0'' 1 ''C'' =
      (Returned (PyStr ''game is finished''), white_won_game\<lparr>current_player := Some ''B''\<rparr>)"
    by code_simp
  have c: "convert_position ''a0'' = Inr (0, 0)" by code_simp
  from finished_game_refuses_moves [OF h m] c h m show ?thesis by simp
qed

theorem refused_move_changes_current_player:
  "game_state white_won_game \<noteq> PyStr ''UNFINISHED''
   \<and> current_player white_won_game = Some ''W''
   \<and> fst (make_move white_won_game ''black'' ''a0'' 1 ''C'') = Returned (PyStr ''game is finished'')
   \<and> current_player (snd (make_move white_won_game ''black'' ''a0'' 1 ''C'')) = Some ''B''
   \<and> snd (make_move white_won_game ''black'' ''a0'' 1 ''C'') \<noteq> white_won_game
   \<and> fst (make_move white_won_game ''black'' ''z0'' 1 ''C'') = Raised KeyError
   \<and> game_state (snd (make_move new_game ''white'' ''a0'' 1 ''C'')) \<noteq> PyStr ''UNFINISHED''
   \<and> snd (make_move (snd (make_move new_game ''white'' ''a0'' 1 ''C'')) ''black'' ''b0'' 1 ''C'')
       \<noteq> snd (make_move new_game ''white'' ''a0'' 1 ''C'')"
  by code_simp

subsection \<open>The scan reads a six by six board without an exception\<close>

lemma py_index_in_range:
  "- int (length xs) \<le> i \<Longrightarrow> i < int (length xs) \<Longrightarrow>
     py_index xs i = Inr (xs ! nat (if i < 0 then int (length xs) + i else i))"
  by (auto simp: py_index_def Let_def)

lemma well_formed_row: "well_formed b \<Longrightarrow> n < 6 \<Longrightarrow> length (b ! n) = 6"
  by (simp add: well_formed_def list_all_length)

lemma board_at_well_formed:
  assumes "well_formed b" and "in_reach (r, c)"
  shows "\<exists>v. board_at b r c = Inr v"
proof -
  have l: "length b = 6" using assms(1) by (simp add: well_formed_def)
  define n where "n = nat (if r < 0 then 6 + r else r)"
  have n: "n < 6" using assms(2) by (auto simp: n_def in_reach_def)
  have "py_index b r = Inr (b ! n)"
    using assms(2) l py_index_in_range [of b r] by (auto simp: n_def in_reach_def)
  moreover have "length (b ! n) = 6" using assms(1) n by (rule well_formed_row)
  moreover have "\<exists>v. py_index (b ! n) c = Inr v"
    using assms(2) \<open>length (b ! n) = 6\<close> py_index_in_range [of "b ! n" c]
    by (auto simp: in_reach_def)
  ultimately show ?thesis by (auto simp: board_at_def)
qed

lemma all_color_total:
  "well_formed b \<Longrightarrow> list_all in_reach cells \<Longrightarrow> \<exists>w. all_color b color cells = Inr w"
proof (induction cells)
  case Nil
  then show ?case by auto
next
  case (Cons cell cells)
  obtain r c where rc: "cell = (r, c)" by (cases cell)
  obtain v where "board_at b r c = Inr v"
    using board_at_well_formed [of b r c] Cons.prems rc by auto
  then show ?case using Cons rc by auto
qed

lemma scan_total:
  "well_formed b \<Longrightarrow> list_all (\<lambda>start. list_all in_reach (run_cells d start)) starts \<Longrightarrow>
     \<exists>w. scan b color d starts = Inr w"
proof (induction starts)
  case Nil
  then show ?case by auto
next
  case (Cons start starts)
  obtain w where "all_color b color (run_cells d start) = Inr w"
    using all_color_total [of b "run_cells d start" color] Cons.prems by auto
  then show ?case using Cons by auto
qed

lemma starts_in_reach:
  "list_all (\<lambda>start. list_all in_reach (run_cells (0, 1) start)) row_starts"
  "list_all (\<lambda>start. list_all in_reach (run_cells (1, 0) start)) column_starts"
  "list_all (\<lambda>start. list_all in_reach (run_cells (1, 1) start)) diagonal_starts"
  "list_all (\<lambda>start. list_all in_reach (run_cells (1, - 1) start)) anti_diagonal_starts"
  by (simp_all add: row_starts_def column_starts_def diagonal_starts_def
      anti_diagonal_starts_def run_cells_def in_reach_def)

lemma check_five_in_a_row_total:
  assumes "well_formed b"
  shows "\<exists>w. check_five_in_a_row b color = Inr w"
proof -
  obtain w1 w2 w3 w4 where
    "scan b color (0, 1) row_starts = Inr w1"
    "scan b color (1, 0) column_starts = Inr w2"
    "scan b color (1, 1) diagonal_starts = Inr w3"
    "scan b color (1, - 1) anti_diagonal_starts = Inr w4"
    using scan_total [OF assms starts_in_reach(1)] scan_total [OF assms starts_in_reach(2)]
      scan_total [OF assms starts_in_reach(3)] scan_total [OF assms starts_in_reach(4)]
    by blast
  then show ?thesis by (auto simp: check_five_in_a_row_def)
qed

lemma well_formed_set_cell: "well_formed b \<Longrightarrow> well_formed (set_cell b r c v)"
  by (cases "r < length b")
    (auto simp: well_formed_def set_cell_def list_all_length nth_list_update)

lemma well_formed_update_game_board:
  "well_formed b \<Longrightarrow> well_formed (update_game_board b marble position)"
  by (cases position) (simp add: well_formed_set_cell)

lemma well_formed_new_game_board: "well_formed new_game_board"
  by (simp add: well_formed_def new_game_board_def list_all_iff)

subsection \<open>A game has one successful move\<close>

lemma play_when_finished:
  assumes "game_state s \<noteq> PyStr ''UNFINISHED''" and "play s calls = (outs, s')"
  shows "game_state s' = game_state s \<and> outs = map refusal_of calls"
  using assms
proof (induction calls arbitrary: s outs)
  case Nil
  then show ?case by simp
next
  case (Cons c calls)
  obtain color position_string sub_board rotation
    where c: "c = (color, position_string, sub_board, rotation)" by (cases c)
  obtain out s1 where m: "make_move s color position_string sub_board rotation = (out, s1)"
    by (cases "make_move s color position_string sub_board rotation")
  obtain outs1 where p: "play s1 calls = (outs1, s')" and o: "outs = out # outs1"
    using Cons.prems(2) c m by (auto split: prod.splits)
  have "out = refusal_of c \<and> game_state s1 = game_state s"
    using m make_move_when_finished [OF Cons.prems(1), of color position_string sub_board rotation] c
    by (auto simp: refusal_of_def split: sum.splits)
  then show ?case using Cons.IH [of s1 outs1] Cons.prems(1) p o by simp
qed

lemma refusal_not_success: "refusal_of c \<noteq> Returned (PyBool True)"
  by (simp add: refusal_of_def split: sum.splits)

lemma successes_refusals: "successes (map refusal_of calls) = 0"
  by (induction calls) (simp_all add: successes_def refusal_not_success)

lemma play_after_success:
  assumes "play s calls = (outs, s')" and "i < length calls"
    and "outs ! i = Returned (PyBool True)"
  shows "(game_state s' = PyBool True \<or> game_state s' = PyBool False)
       \<and> drop (Suc i) outs = map refusal_of (drop (Suc i) calls)"
  using assms
proof (induction calls arbitrary: s outs i)
  case Nil
  then show ?case by simp
next
  case (Cons c calls)
  obtain color position_string sub_board rotation
    where c: "c = (color, position_string, sub_board, rotation)" by (cases c)
  obtain out s1 where m: "make_move s color position_string sub_board rotation = (out, s1)"
    by (cases "make_move s color position_string sub_board rotation")
  obtain outs1 where p: "play s1 calls = (outs1, s')" and o: "outs = out # outs1"
    using Cons.prems(1) c m by (auto split: prod.splits)
  show ?case
  proof (cases i)
    case 0
    then have "out = Returned (PyBool True)" using Cons.prems(3) o by simp
    then have b: "game_state s1 = PyBool True \<or> game_state s1 = PyBool False"
      using m make_move_success_stores_boolean by blast
    then have "game_state s1 \<noteq> PyStr ''UNFINISHED''" by auto
    from play_when_finished [OF this p] b 0 o show ?thesis by auto
  next
    case (Suc k)
    then show ?thesis using Cons.IH [of s1 outs1 k] p o Cons.prems by simp
  qed
qed

lemma play_successes:
  assumes "play s calls = (outs, s')"
  shows "successes outs \<le> 1"
  using assms
proof (induction calls arbitrary: s outs)
  case Nil
  then show ?case by (simp add: successes_def)
next
  case (Cons c calls)
  obtain color position_string sub_board rotation
    where c: "c = (color, position_string, sub_board, rotation)" by (cases c)
  obtain out s1 where m: "make_move s color position_string sub_board rotation = (out, s1)"
    by (cases "make_move s color position_string sub_board rotation")
  obtain outs1 where p: "play s1 calls = (outs1, s')" and o: "outs = out # outs1"
    using Cons.prems(1) c m by (auto split: prod.splits)
  show ?case
  proof (cases "out = Returned (PyBool True)")
    case True
    then have "game_state s1 = PyBool True \<or> game_state s1 = PyBool False"
      using m make_move_success_stores_boolean by blast
    then have "game_state s1 \<noteq> PyStr ''UNFINISHED''" by auto
    from play_when_finished [OF this p] have "successes outs1 = 0"
      by (simp add: successes_refusals)
    then show ?thesis using o by (simp add: successes_def)
  next
    case False
    then show ?thesis using Cons.IH [OF p] o by (simp add: successes_def)
  qed
qed

lemma valid_move_succeeds:
  assumes "well_formed (board s)" and "convert_position position_string = Inr position"
    and "is_valid_move (s\<lparr>current_player := Some (marble_of color)\<rparr>) position (marble_of color)
           = Inr (PyBool True)"
  shows "\<exists>w. check_five_in_a_row (update_game_board (board s) (marble_of color) position)
               (marble_of color) = Inr w
           \<and> make_move s color position_string sub_board rotation =
               (Returned (PyBool True),
                s\<lparr>current_player := Some (marble_of color),
                   board := update_game_board (board s) (marble_of color) position,
                   game_state := PyBool w\<rparr>)"
proof -
  define m where "m = marble_of color"
  define b' where "b' = update_game_board (board s) m position"
  have "well_formed b'"
    unfolding b'_def using assms(1) by (rule well_formed_update_game_board)
  then have "\<exists>w. check_five_in_a_row b' m = Inr w"
    by (rule check_five_in_a_row_total)
  then obtain w where w: "check_five_in_a_row b' m = Inr w" ..
  then have ce: "check_end_conditions b' m = Inr (PyBool w)"
    by (simp add: check_end_conditions_def)
  have v: "is_valid_move (s\<lparr>current_player := Some m\<rparr>) position m = Inr (PyBool True)"
    using assms(3) by (simp only: m_def)
  have "make_move s color position_string sub_board rotation =
     (Returned (PyBool True), s\<lparr>current_player := Some m, board := b', game_state := PyBool w\<rparr>)"
    unfolding make_move_returns_before_rotation m_def [symmetric]
    by (simp add: assms(2) Let_def v b'_def [symmetric] ce)
  then show ?thesis using w unfolding m_def b'_def by blast
qed

text \<open>
  C9. A call of \<open>make_move\<close> that passes the validation and places its marble stores the
  boolean that \<open>check_end_conditions\<close> returns, never one of the four documented strings,
  so the state is never \<open>UNFINISHED\<close> again; in a game at most one call succeeds, and
  every later call should return \<open>game is finished\<close>. The last part holds for the calls
  whose position decodes: a later call with a position that does not decode raises the
  exception of \<open>convert_position\<close>, as it does at any time. Stated here for a game that
  starts in any state \<open>s\<close>, a new game among them.
\<close>

theorem one_success_ends_the_game:
  "(well_formed (board s) \<and> convert_position position_string = Inr position \<and>
    is_valid_move (s\<lparr>current_player := Some (marble_of color)\<rparr>) position (marble_of color)
      = Inr (PyBool True)
    \<longrightarrow> (\<exists>w. check_five_in_a_row (update_game_board (board s) (marble_of color) position)
                (marble_of color) = Inr w
            \<and> make_move s color position_string sub_board rotation =
                (Returned (PyBool True),
                 s\<lparr>current_player := Some (marble_of color),
                    board := update_game_board (board s) (marble_of color) position,
                    game_state := PyBool w\<rparr>)))
   \<and> (play s calls = (outs, s')
      \<longrightarrow> successes outs \<le> 1
          \<and> (\<forall>i. i < length calls \<and> outs ! i = Returned (PyBool True)
                \<longrightarrow> (game_state s' = PyBool True \<or> game_state s' = PyBool False)
                    \<and> drop (Suc i) outs = map refusal_of (drop (Suc i) calls)))"
proof (intro conjI impI allI)
  assume "well_formed (board s) \<and> convert_position position_string = Inr position \<and>
    is_valid_move (s\<lparr>current_player := Some (marble_of color)\<rparr>) position (marble_of color)
      = Inr (PyBool True)"
  then show "\<exists>w. check_five_in_a_row (update_game_board (board s) (marble_of color) position)
                (marble_of color) = Inr w
            \<and> make_move s color position_string sub_board rotation =
                (Returned (PyBool True),
                 s\<lparr>current_player := Some (marble_of color),
                    board := update_game_board (board s) (marble_of color) position,
                    game_state := PyBool w\<rparr>)"
    using valid_move_succeeds [of s position_string position color sub_board rotation] by simp
next
  assume "play s calls = (outs, s')"
  then show "successes outs \<le> 1" by (rule play_successes)
next
  fix i
  assume p: "play s calls = (outs, s')"
    and i: "i < length calls \<and> outs ! i = Returned (PyBool True)"
  show "game_state s' = PyBool True \<or> game_state s' = PyBool False"
    using play_after_success [OF p, of i] i by simp
  show "drop (Suc i) outs = map refusal_of (drop (Suc i) calls)"
    using play_after_success [OF p, of i] i by simp
qed

theorem one_success_ends_the_game_witness:
  "well_formed (board new_game)
   \<and> convert_position ''a0'' = Inr (0, 0)
   \<and> make_move new_game ''white'' ''a0'' 1 ''C'' =
       (Returned (PyBool True),
        new_game\<lparr>current_player := Some ''W'',
                 board := update_game_board (board new_game) ''W'' (0, 0),
                 game_state := PyBool False\<rparr>)
   \<and> fst (play new_game three_calls) =
       [Returned (PyBool True), Returned (PyStr ''game is finished''), Raised KeyError]
   \<and> successes (fst (play new_game three_calls)) \<le> 1
   \<and> game_state (snd (play new_game three_calls)) = PyBool False
   \<and> drop (Suc 0) (fst (play new_game three_calls)) = map refusal_of (drop (Suc 0) three_calls)"
proof -
  obtain outs s' where p: "play new_game three_calls = (outs, s')"
    by (cases "play new_game three_calls")
  have o: "fst (play new_game three_calls) =
      [Returned (PyBool True), Returned (PyStr ''game is finished''), Raised KeyError]"
    by code_simp
  have g: "game_state (snd (play new_game three_calls)) = PyBool False" by code_simp
  have m: "marble_of ''white'' = ''W''" by code_simp
  have h: "well_formed (board new_game) \<and> convert_position ''a0'' = Inr (0, 0) \<and>
      is_valid_move (new_game\<lparr>current_player := Some (marble_of ''white'')\<rparr>) (0, 0)
        (marble_of ''white'') = Inr (PyBool True)"
    by code_simp
  have f: "check_five_in_a_row (update_game_board (board new_game) ''W'' (0, 0)) ''W'' = Inr False"
    by code_simp
  have l: "0 < length three_calls \<and> outs ! 0 = Returned (PyBool True)"
    using o p by (simp add: three_calls_def)
  note t = one_success_ends_the_game [of new_game "''a0''" "(0, 0)" "''white''" 1 "''C''"
      three_calls outs s']
  from t h obtain w where
    w: "check_five_in_a_row (update_game_board (board new_game) (marble_of ''white'') (0, 0))
          (marble_of ''white'') = Inr w"
    and mm: "make_move new_game ''white'' ''a0'' 1 ''C'' =
       (Returned (PyBool True),
        new_game\<lparr>current_player := Some (marble_of ''white''),
                 board := update_game_board (board new_game) (marble_of ''white'') (0, 0),
                 game_state := PyBool w\<rparr>)"
    by blast
  have "w = False" using w f m by simp
  moreover have "successes outs \<le> 1" using t p by blast
  moreover have "drop (Suc 0) outs = map refusal_of (drop (Suc 0) three_calls)"
    using t p l by blast
  ultimately show ?thesis using h mm m o g p by simp
qed

theorem later_call_with_undecodable_position_raises:
  "fst (make_move new_game ''white'' ''a0'' 1 ''C'') = Returned (PyBool True)
   \<and> fst (make_move (snd (make_move new_game ''white'' ''a0'' 1 ''C'')) ''black'' ''z0'' 1 ''C'')
       = Raised KeyError
   \<and> fst (make_move (snd (make_move new_game ''white'' ''a0'' 1 ''C'')) ''black'' ''z0'' 1 ''C'')
       \<noteq> Returned (PyStr ''game is finished'')
   \<and> fst (play new_game three_calls) =
       [Returned (PyBool True), Returned (PyStr ''game is finished''), Raised KeyError]"
  by code_simp

section \<open>Positions\<close>













section \<open>Colours\<close>

lemma marble_of_white_black: "marble_of ''white'' = ''W''" "marble_of ''black'' = ''B''"
  by code_simp+

lemma make_move_marble:
  assumes "marble_of color = marble_of color'"
  shows "make_move s color ps sub_board rotation = make_move s color' ps sub_board rotation"
  unfolding make_move_returns_before_rotation assms by (rule refl)

lemma board_at_set_cell:
  assumes "board_at b (int r) (int c) = Inr v"
  shows "board_at (set_cell b r c marble) (int r) (int c) = Inr marble"
proof -
  have r: "r < length b"
    using assms by (auto simp: board_at_def py_index_def Let_def split: if_splits sum.splits)
  then have "py_index b (int r) = Inr (b ! r)" by (simp add: py_index_def)
  then have c: "c < length (b ! r)"
    using assms by (auto simp: board_at_def py_index_def Let_def split: if_splits)
  show ?thesis using r c by (simp add: board_at_def py_index_def set_cell_def)
qed

lemma valid_move_reads_cell:
  assumes "is_valid_move s position player = Inr (PyBool True)"
  shows "board_at (board s) (int (fst position)) (int (snd position)) = Inr ''.''"
  using assms by (cases position) (auto split: if_splits sum.splits)

lemma valid_move_places_marble:
  assumes "convert_position ps = Inr position"
    and "is_valid_move (s\<lparr>current_player := Some (marble_of color)\<rparr>) position (marble_of color)
           = Inr (PyBool True)"
  shows "board (snd (make_move s color ps sub_board rotation))
           = update_game_board (board s) (marble_of color) position"
    and "current_player (snd (make_move s color ps sub_board rotation)) = Some (marble_of color)"
    and "board_at (board (snd (make_move s color ps sub_board rotation)))
           (int (fst position)) (int (snd position)) = Inr (marble_of color)"
proof -
  show b: "board (snd (make_move s color ps sub_board rotation))
           = update_game_board (board s) (marble_of color) position"
    using assms by (simp add: make_move_returns_before_rotation Let_def split: sum.splits)
  show "current_player (snd (make_move s color ps sub_board rotation)) = Some (marble_of color)"
    using assms by (simp add: make_move_returns_before_rotation Let_def split: sum.splits)
  have "board_at (board s) (int (fst position)) (int (snd position)) = Inr ''.''"
    using valid_move_reads_cell [OF assms(2)] by simp
  then show "board_at (board (snd (make_move s color ps sub_board rotation)))
           (int (fst position)) (int (snd position)) = Inr (marble_of color)"
    unfolding b by (cases position) (simp add: board_at_set_cell)
qed

text \<open>
  C10. \<open>make_move\<close> compares the upper-cased colour with \<open>"WHITE"\<close>: a colour that
  upper-cases to it is White, and every other string, valid or not, is Black. Such a call
  does what the call with \<open>"black"\<close> does in every state (so no colour is refused), the
  current player becomes \<open>B\<close> once the position decodes, a move that passes the
  validation puts the marble \<open>B\<close> on its cell, and on a six by six board it returns
  \<open>True\<close>.
\<close>

theorem other_colors_play_black:
  "make_move s color ps sub_board rotation =
     make_move s (if upper color = ''WHITE'' then ''white'' else ''black'') ps sub_board rotation
   \<and> (upper color \<noteq> ''WHITE'' \<longrightarrow>
        make_move s color ps sub_board rotation = make_move s ''black'' ps sub_board rotation
        \<and> (convert_position ps = Inr position \<longrightarrow>
             current_player (snd (make_move s color ps sub_board rotation)) = Some ''B'')
        \<and> (convert_position ps = Inr position \<and>
            is_valid_move (s\<lparr>current_player := Some ''B''\<rparr>) position ''B'' = Inr (PyBool True) \<longrightarrow>
              board (snd (make_move s color ps sub_board rotation))
                = update_game_board (board s) ''B'' position
              \<and> board_at (board (snd (make_move s color ps sub_board rotation)))
                  (int (fst position)) (int (snd position)) = Inr ''B''
              \<and> (well_formed (board s) \<longrightarrow>
                   fst (make_move s color ps sub_board rotation) = Returned (PyBool True))))"
proof (intro conjI impI)
  show "make_move s color ps sub_board rotation =
     make_move s (if upper color = ''WHITE'' then ''white'' else ''black'') ps sub_board rotation"
    by (rule make_move_marble) (simp add: marble_of_white_black, simp add: marble_of_def)
next
  assume n: "upper color \<noteq> ''WHITE''"
  then have m: "marble_of color = ''B''" by (simp add: marble_of_def)
  show "make_move s color ps sub_board rotation = make_move s ''black'' ps sub_board rotation"
    by (rule make_move_marble) (simp add: m marble_of_white_black)
  {
    assume "convert_position ps = Inr position"
    then show "current_player (snd (make_move s color ps sub_board rotation)) = Some ''B''"
      by (auto simp: make_move_returns_before_rotation Let_def m split: sum.splits)
  }
  {
    assume "convert_position ps = Inr position \<and>
        is_valid_move (s\<lparr>current_player := Some ''B''\<rparr>) position ''B'' = Inr (PyBool True)"
    then have c: "convert_position ps = Inr position"
      and v: "is_valid_move (s\<lparr>current_player := Some (marble_of color)\<rparr>) position
          (marble_of color) = Inr (PyBool True)"
      by (simp_all add: m)
    show "board (snd (make_move s color ps sub_board rotation))
        = update_game_board (board s) ''B'' position"
      using valid_move_places_marble(1) [OF c v] by (simp add: m)
    show "board_at (board (snd (make_move s color ps sub_board rotation)))
        (int (fst position)) (int (snd position)) = Inr ''B''"
      using valid_move_places_marble(3) [OF c v] by (simp add: m)
    {
      assume "well_formed (board s)"
      from valid_move_succeeds [OF this c v, of sub_board rotation]
      show "fst (make_move s color ps sub_board rotation) = Returned (PyBool True)" by auto
    }
  }
qed

theorem other_colors_play_black_witness:
  "upper ''green'' \<noteq> ''WHITE''
   \<and> make_move new_game ''green'' ''a0'' 1 ''C'' = make_move new_game ''black'' ''a0'' 1 ''C''
   \<and> convert_position ''a0'' = Inr (0, 0)
   \<and> is_valid_move (new_game\<lparr>current_player := Some ''B''\<rparr>) (0, 0) ''B'' = Inr (PyBool True)
   \<and> well_formed (board new_game)
   \<and> current_player (snd (make_move new_game ''green'' ''a0'' 1 ''C'')) = Some ''B''
   \<and> board (snd (make_move new_game ''green'' ''a0'' 1 ''C''))
       = update_game_board (board new_game) ''B'' (0, 0)
   \<and> board_at (board (snd (make_move new_game ''green'' ''a0'' 1 ''C''))) 0 0 = Inr ''B''
   \<and> fst (make_move new_game ''green'' ''a0'' 1 ''C'') = Returned (PyBool True)"
proof -
  have u: "upper ''green'' \<noteq> ''WHITE''" by code_simp
  have c: "convert_position ''a0'' = Inr (0, 0)" by code_simp
  have v: "is_valid_move (new_game\<lparr>current_player := Some ''B''\<rparr>) (0, 0) ''B'' = Inr (PyBool True)"
    by code_simp
  have w: "well_formed (board new_game)" by code_simp
  have k: "make_move new_game ''green'' ''a0'' 1 ''C'' = make_move new_game ''black'' ''a0'' 1 ''C''
      \<and> current_player (snd (make_move new_game ''green'' ''a0'' 1 ''C'')) = Some ''B''
      \<and> board (snd (make_move new_game ''green'' ''a0'' 1 ''C''))
          = update_game_board (board new_game) ''B'' (0, 0)
      \<and> board_at (board (snd (make_move new_game ''green'' ''a0'' 1 ''C'')))
          (int (fst (0::nat, 0::nat))) (int (snd (0::nat, 0::nat))) = Inr ''B''
      \<and> fst (make_move new_game ''green'' ''a0'' 1 ''C'') = Returned (PyBool True)"
    using other_colors_play_black [of new_game "''green''" "''a0''" 1 "''C''" "(0, 0)"] u c v w
    by blast
  then have "board_at (board (snd (make_move new_game ''green'' ''a0'' 1 ''C'')))
      (int (fst (0::nat, 0::nat))) (int (snd (0::nat, 0::nat))) = Inr ''B''"
    by blast
  then have "board_at (board (snd (make_move new_game ''green'' ''a0'' 1 ''C''))) 0 0 = Inr ''B''"
    by (simp only: fst_conv snd_conv of_nat_0)
  then show ?thesis using k u c v w by blast
qed

section \<open>Rotation\<close>

lemma length_six: "length xs = 6 \<Longrightarrow> \<exists>a b c d e f. xs = [a, b, c, d, e, f]"
  by (auto simp: length_Suc_conv eval_nat_numeral)

lemma well_formed_rows:
  assumes "well_formed b"
  obtains r0 r1 r2 r3 r4 r5 where "b = [r0, r1, r2, r3, r4, r5]"
    and "length r0 = 6" and "length r1 = 6" and "length r2 = 6"
    and "length r3 = 6" and "length r4 = 6" and "length r5 = 6"
proof -
  have "length b = 6" using assms by (simp add: well_formed_def)
  then obtain r0 r1 r2 r3 r4 r5 where b: "b = [r0, r1, r2, r3, r4, r5]"
    using length_six by blast
  then show ?thesis using assms that by (simp add: well_formed_def)
qed

text \<open>A six by six board, cell by cell.\<close>

lemma well_formed_cells:
  assumes "well_formed b"
  obtains a0 a1 a2 a3 a4 a5 b0 b1 b2 b3 b4 b5 c0 c1 c2 c3 c4 c5
    d0 d1 d2 d3 d4 d5 e0 e1 e2 e3 e4 e5 f0 f1 f2 f3 f4 f5
  where "b = [[a0, a1, a2, a3, a4, a5], [b0, b1, b2, b3, b4, b5], [c0, c1, c2, c3, c4, c5],
              [d0, d1, d2, d3, d4, d5], [e0, e1, e2, e3, e4, e5], [f0, f1, f2, f3, f4, f5]]"
proof -
  obtain r0 r1 r2 r3 r4 r5 where b: "b = [r0, r1, r2, r3, r4, r5]"
    and l: "length r0 = 6" "length r1 = 6" "length r2 = 6"
      "length r3 = 6" "length r4 = 6" "length r5 = 6"
    using assms by (rule well_formed_rows)
  obtain a0 a1 a2 a3 a4 a5 where "r0 = [a0, a1, a2, a3, a4, a5]"
    using l(1) length_six by blast
  moreover obtain b0 b1 b2 b3 b4 b5 where "r1 = [b0, b1, b2, b3, b4, b5]"
    using l(2) length_six by blast
  moreover obtain c0 c1 c2 c3 c4 c5 where "r2 = [c0, c1, c2, c3, c4, c5]"
    using l(3) length_six by blast
  moreover obtain d0 d1 d2 d3 d4 d5 where "r3 = [d0, d1, d2, d3, d4, d5]"
    using l(4) length_six by blast
  moreover obtain e0 e1 e2 e3 e4 e5 where "r4 = [e0, e1, e2, e3, e4, e5]"
    using l(5) length_six by blast
  moreover obtain f0 f1 f2 f3 f4 f5 where "r5 = [f0, f1, f2, f3, f4, f5]"
    using l(6) length_six by blast
  ultimately have "b = [[a0, a1, a2, a3, a4, a5], [b0, b1, b2, b3, b4, b5],
      [c0, c1, c2, c3, c4, c5], [d0, d1, d2, d3, d4, d5], [e0, e1, e2, e3, e4, e5],
      [f0, f1, f2, f3, f4, f5]]"
    using b by simp
  then show ?thesis by (rule that)
qed

lemma corners:
  "start \<in> set (map snd sub_board_map) \<Longrightarrow>
     start = (0, 0) \<or> start = (0, 3) \<or> start = (3, 0) \<or> start = (3, 3)"
  by (auto simp: sub_board_map_def)

lemmas rotate_defs = SubBoard_rotate_def write_sub_board_def get_sub_board_def set_cell_def
  rotated_clockwise_def rotated_counterclockwise_def Let_def


lemma rotate_clockwise_back:
  assumes "well_formed b" and "start \<in> set (map snd sub_board_map)"
  shows "\<exists>b'. SubBoard_rotate b start ''C'' = Inr b'
     \<and> get_sub_board b' start = rotated_clockwise (get_sub_board b start)
     \<and> SubBoard_rotate b' start ''A'' = Inr b"
proof -
  obtain a0 a1 a2 a3 a4 a5 b0 b1 b2 b3 b4 b5 c0 c1 c2 c3 c4 c5
    d0 d1 d2 d3 d4 d5 e0 e1 e2 e3 e4 e5 f0 f1 f2 f3 f4 f5
  where b: "b = [[a0, a1, a2, a3, a4, a5], [b0, b1, b2, b3, b4, b5], [c0, c1, c2, c3, c4, c5],
              [d0, d1, d2, d3, d4, d5], [e0, e1, e2, e3, e4, e5], [f0, f1, f2, f3, f4, f5]]"
    using assms(1) by (rule well_formed_cells)
  from corners [OF assms(2)] show ?thesis
    by (elim disjE) (simp_all add: b rotate_defs)
qed

lemma rotate_counterclockwise_back:
  assumes "well_formed b" and "start \<in> set (map snd sub_board_map)"
  shows "\<exists>b'. SubBoard_rotate b start ''A'' = Inr b'
     \<and> get_sub_board b' start = rotated_counterclockwise (get_sub_board b start)
     \<and> SubBoard_rotate b' start ''C'' = Inr b"
proof -
  obtain a0 a1 a2 a3 a4 a5 b0 b1 b2 b3 b4 b5 c0 c1 c2 c3 c4 c5
    d0 d1 d2 d3 d4 d5 e0 e1 e2 e3 e4 e5 f0 f1 f2 f3 f4 f5
  where b: "b = [[a0, a1, a2, a3, a4, a5], [b0, b1, b2, b3, b4, b5], [c0, c1, c2, c3, c4, c5],
              [d0, d1, d2, d3, d4, d5], [e0, e1, e2, e3, e4, e5], [f0, f1, f2, f3, f4, f5]]"
    using assms(1) by (rule well_formed_cells)
  from corners [OF assms(2)] show ?thesis
    by (elim disjE) (simp_all add: b rotate_defs)
qed

lemma length_three: "length xs = 3 \<Longrightarrow> \<exists>a b c. xs = [a, b, c]"
  by (auto simp: length_Suc_conv eval_nat_numeral)

lemma three_by_three_cells:
  assumes "three_by_three q"
  obtains a0 a1 a2 b0 b1 b2 c0 c1 c2 where "q = [[a0, a1, a2], [b0, b1, b2], [c0, c1, c2]]"
proof -
  have "length q = 3" using assms by (simp add: three_by_three_def)
  then obtain r0 r1 r2 where q: "q = [r0, r1, r2]" using length_three by blast
  then have l: "length r0 = 3" "length r1 = 3" "length r2 = 3"
    using assms by (simp_all add: three_by_three_def)
  obtain a0 a1 a2 where "r0 = [a0, a1, a2]" using l(1) length_three by blast
  moreover obtain b0 b1 b2 where "r1 = [b0, b1, b2]" using l(2) length_three by blast
  moreover obtain c0 c1 c2 where "r2 = [c0, c1, c2]" using l(3) length_three by blast
  ultimately have "q = [[a0, a1, a2], [b0, b1, b2], [c0, c1, c2]]" using q by simp
  then show ?thesis by (rule that)
qed

lemma rotated_inverse:
  assumes "three_by_three q"
  shows "rotated_counterclockwise (rotated_clockwise q) = q"
    and "rotated_clockwise (rotated_counterclockwise q) = q"
proof -
  obtain a0 a1 a2 b0 b1 b2 c0 c1 c2 where q: "q = [[a0, a1, a2], [b0, b1, b2], [c0, c1, c2]]"
    using assms by (rule three_by_three_cells)
  show "rotated_counterclockwise (rotated_clockwise q) = q"
    by (simp add: q rotated_clockwise_def rotated_counterclockwise_def)
  show "rotated_clockwise (rotated_counterclockwise q) = q"
    by (simp add: q rotated_clockwise_def rotated_counterclockwise_def)
qed

lemma three_by_three_get_sub_board: "three_by_three (get_sub_board b start)"
  by (simp add: three_by_three_def get_sub_board_def)





text \<open>
  C4. Turning a sub-board clockwise and then counterclockwise restores its contents; the
  two rotations are inverse permutations. On every three by three grid the two
  rearrangements undo each other in either order, and on a six by six board \<open>rotate\<close> at
  any of the four sub-boards writes the rearranged window and the opposite \<open>rotate\<close>
  brings the whole board back.
\<close>

theorem rotations_are_inverse:
  "(three_by_three q \<longrightarrow>
      rotated_counterclockwise (rotated_clockwise q) = q
      \<and> rotated_clockwise (rotated_counterclockwise q) = q)
   \<and> (well_formed b \<and> start \<in> set (map snd sub_board_map) \<longrightarrow>
      three_by_three (get_sub_board b start)
      \<and> (\<exists>b'. SubBoard_rotate b start ''C'' = Inr b'
            \<and> get_sub_board b' start = rotated_clockwise (get_sub_board b start)
            \<and> SubBoard_rotate b' start ''A'' = Inr b)
      \<and> (\<exists>b'. SubBoard_rotate b start ''A'' = Inr b'
            \<and> get_sub_board b' start = rotated_counterclockwise (get_sub_board b start)
            \<and> SubBoard_rotate b' start ''C'' = Inr b))"
  using rotated_inverse [of q] three_by_three_get_sub_board [of b start]
    rotate_clockwise_back [of b start] rotate_counterclockwise_back [of b start]
  by (intro conjI impI) simp_all

theorem rotations_are_inverse_witness:
  "three_by_three [[''1'', ''2'', ''3''], [''4'', ''5'', ''6''], [''7'', ''8'', ''9'']]
   \<and> rotated_counterclockwise
       (rotated_clockwise [[''1'', ''2'', ''3''], [''4'', ''5'', ''6''], [''7'', ''8'', ''9'']])
       = [[''1'', ''2'', ''3''], [''4'', ''5'', ''6''], [''7'', ''8'', ''9'']]
   \<and> well_formed numbered_board \<and> (0, 0) \<in> set (map snd sub_board_map)
   \<and> SubBoard_rotate numbered_board (0, 0) ''C'' =
       Inr [[''7'', ''4'', ''1'', ''.'', ''.'', ''.''],
            [''8'', ''5'', ''2'', ''.'', ''.'', ''.''],
            [''9'', ''6'', ''3'', ''.'', ''.'', ''.''],
            [''.'', ''.'', ''.'', ''.'', ''.'', ''.''],
            [''.'', ''.'', ''.'', ''.'', ''.'', ''.''],
            [''.'', ''.'', ''.'', ''.'', ''.'', ''.'']]
   \<and> SubBoard_rotate
         [[''7'', ''4'', ''1'', ''.'', ''.'', ''.''],
          [''8'', ''5'', ''2'', ''.'', ''.'', ''.''],
          [''9'', ''6'', ''3'', ''.'', ''.'', ''.''],
          [''.'', ''.'', ''.'', ''.'', ''.'', ''.''],
          [''.'', ''.'', ''.'', ''.'', ''.'', ''.''],
          [''.'', ''.'', ''.'', ''.'', ''.'', ''.'']] (0, 0) ''A'' = Inr numbered_board"
proof -
  have t: "three_by_three [[''1'', ''2'', ''3''], [''4'', ''5'', ''6''], [''7'', ''8'', ''9'']]"
    by code_simp
  have w: "well_formed numbered_board" by code_simp
  have s: "(0, 0) \<in> set (map snd sub_board_map)" by code_simp
  have c: "SubBoard_rotate numbered_board (0, 0) ''C'' =
       Inr [[''7'', ''4'', ''1'', ''.'', ''.'', ''.''],
            [''8'', ''5'', ''2'', ''.'', ''.'', ''.''],
            [''9'', ''6'', ''3'', ''.'', ''.'', ''.''],
            [''.'', ''.'', ''.'', ''.'', ''.'', ''.''],
            [''.'', ''.'', ''.'', ''.'', ''.'', ''.''],
            [''.'', ''.'', ''.'', ''.'', ''.'', ''.'']]"
    by code_simp
  note r = rotations_are_inverse
    [of "[[''1'', ''2'', ''3''], [''4'', ''5'', ''6''], [''7'', ''8'', ''9'']]"
      numbered_board "(0, 0)"]
  from r w s obtain b' where "SubBoard_rotate numbered_board (0, 0) ''C'' = Inr b'"
    and a: "SubBoard_rotate b' (0, 0) ''A'' = Inr numbered_board"
    by blast
  then have "b' = [[''7'', ''4'', ''1'', ''.'', ''.'', ''.''],
            [''8'', ''5'', ''2'', ''.'', ''.'', ''.''],
            [''9'', ''6'', ''3'', ''.'', ''.'', ''.''],
            [''.'', ''.'', ''.'', ''.'', ''.'', ''.''],
            [''.'', ''.'', ''.'', ''.'', ''.'', ''.''],
            [''.'', ''.'', ''.'', ''.'', ''.'', ''.'']]"
    using c by simp
  then show ?thesis using r t w s c a by blast
qed



end
